theory Spec2Isabelle
  imports Complex_Main "HOL-Library.Word"
begin

section \<open>The b3rb position controller (src/app/b3rb/src/position.c)\<close>

text \<open>
  The file holds one static context, a tracking evaluation (\<open>bezier_position_mode\<close>), the
  worker's cycle (\<open>b3rb_position_run\<close>) and a shell handler. The embedding follows it
  function by function.

  Conventions of the embedding.
  \<^item> \<open>double\<close> is a type variable \<open>'a\<close> with the operations the source applies to it
    (\<open>0\<close>, \<open>+\<close>, \<open>*\<close>). No law of arithmetic is assumed for it, so what is proved holds
    for IEEE arithmetic as it holds for the reals.
  \<^item> \<open>uint64_t\<close> is \<open>64 word\<close>: subtraction wraps.
  \<^item> The numeric functions that position.c calls but does not define (the CasADi
    functions \<open>bezier6_rover\<close> and \<open>se2_error\<close>, \<open>atan2\<close> of math.h, the conversions
    between integers and \<open>double\<close>) are the fields of a record of parameters; every
    theorem holds for every choice of them.
  \<^item> The message structs are declared by headers outside src/. Their records below list
    the fields that position.c (and, for the velocity command, its initialiser) names.
    The fields \<open>x\<close>, \<open>y\<close>, \<open>z\<close> of a vector are \<open>vec_x\<close>, \<open>vec_y\<close>, \<open>vec_z\<close>, and
    \<open>linear\<close>, \<open>angular\<close> are \<open>twist_linear\<close>, \<open>twist_angular\<close> (\<open>linear\<close> is a
    constant of the library).
  \<^item> Log output (\<open>LOG_WRN\<close>, \<open>LOG_DBG\<close>, \<open>LOG_ERR\<close>, \<open>LOG_INF\<close>) is not modelled.
\<close>

subsection \<open>Data\<close>

type_synonym u64 = "64 word"

record 'a vector3 =
  vec_x :: 'a
  vec_y :: 'a
  vec_z :: 'a

record 'a twist =
  has_linear :: bool
  twist_linear :: "'a vector3"
  has_angular :: bool
  twist_angular :: "'a vector3"

text \<open>
  One Bezier curve of the trajectory message: \<open>time_stop\<close> and the control points
  \<open>x[6]\<close>, \<open>y[6]\<close>.
\<close>

record 'a bezier_curve =
  time_stop :: u64
  curve_x :: "'a list"
  curve_y :: "'a list"

text \<open>
  The trajectory message: \<open>curves\<close> is the fixed-size array of the struct (its length
  is the array's capacity), \<open>curves_count\<close> the number of stored curves.
\<close>

record 'a bezier_trajectory =
  time_start :: u64
  curves_count :: nat
  curves :: "'a bezier_curve list"

record clock_time =
  clock_sec :: int
  clock_nanosec :: int

text \<open>
  The fields of the odometry message that are read: \<open>pose.pose.position.x\<close>,
  \<open>pose.pose.position.y\<close>, \<open>pose.pose.orientation.z\<close>, \<open>pose.pose.orientation.w\<close>.
\<close>

record 'a odometry =
  position_x :: 'a
  position_y :: 'a
  orientation_z :: 'a
  orientation_w :: 'a

text \<open>
  Modelled from the spec: the enum \<open>synapse_msgs_Status_Mode\<close> is declared outside
  src/. The spec distinguishes the autonomous-tracking value, which the source names
  \<open>MODE_BEZIER\<close>, from every other value; \<open>MODE_OTHER n\<close> stands for the others.
\<close>

datatype status_mode = MODE_BEZIER | MODE_OTHER nat

record status =
  mode :: status_mode

text \<open>
  \<open>struct context\<close> (the name is a keyword here), without the transport handles and
  the thread bookkeeping. The atomic \<open>running\<close> only ever holds 0 or 1 and is a
  \<open>bool\<close>.
\<close>

record 'a b3rb_context =
  ctx_status :: status
  offboard_bezier_trajectory :: "'a bezier_trajectory"
  offboard_clock_offset :: clock_time
  estimator_odometry :: "'a odometry"
  cmd_vel :: "'a twist"
  wheel_base :: 'a
  gain_along_track :: 'a
  gain_cross_track :: 'a
  gain_heading :: 'a
  running :: bool

subsection \<open>b3rb_position_stop\<close>

definition b3rb_position_stop :: "('a::zero) b3rb_context \<Rightarrow> 'a b3rb_context" where
  "b3rb_position_stop ctx =
     (let ctx1 = ctx\<lparr>cmd_vel := (cmd_vel ctx)
                   \<lparr>twist_linear := (twist_linear (cmd_vel ctx))\<lparr>vec_x := 0\<rparr>\<rparr>\<rparr>
      in ctx1\<lparr>cmd_vel := (cmd_vel ctx1)
                   \<lparr>twist_angular := (twist_angular (cmd_vel ctx1))\<lparr>vec_z := 0\<rparr>\<rparr>\<rparr>)"

subsection \<open>Functions defined outside position.c\<close>

text \<open>
  \<^item> \<open>bezier6_rover\<close>, \<open>se2_error\<close>: the CasADi functions, called through
    \<open>CASADI_FUNC_CALL\<close>; the arrays \<open>p[3]\<close>, \<open>r[3]\<close>, \<open>e[3]\<close> are triples.
  \<^item> \<open>atan2\<close>: math.h.
  \<^item> \<open>double_of_int\<close>: the conversion of an \<open>int\<close> constant to \<open>double\<close>.
  \<^item> \<open>nsec_to_sec w\<close>: the expression \<open>w * 1e-9\<close> for a \<open>uint64_t\<close> \<open>w\<close>.
  \<^item> \<open>current_time_nsec uptime offset\<close>: the expression
    \<open>k_uptime_get() * 1e6 + offset.sec * 1e9 + offset.nanosec\<close>, computed in
    \<open>double\<close> and converted to \<open>uint64_t\<close>, where \<open>uptime\<close> is what
    \<open>k_uptime_get()\<close> returned.
\<close>

record 'a externals =
  bezier6_rover :: "'a \<Rightarrow> 'a \<Rightarrow> 'a list \<Rightarrow> 'a list \<Rightarrow> 'a \<times> 'a \<times> 'a \<times> 'a \<times> 'a"
  se2_error :: "'a \<times> 'a \<times> 'a \<Rightarrow> 'a \<times> 'a \<times> 'a \<Rightarrow> 'a \<times> 'a \<times> 'a"
  atan2 :: "'a \<Rightarrow> 'a \<Rightarrow> 'a"
  double_of_int :: "int \<Rightarrow> 'a"
  nsec_to_sec :: "u64 \<Rightarrow> 'a"
  current_time_nsec :: "int \<Rightarrow> clock_time \<Rightarrow> u64"

text \<open>
  The calls of the two CasADi functions are effects of the evaluation: it returns them,
  in order, with their arguments.
\<close>

datatype 'a call =
  Call_bezier6_rover 'a 'a "'a list" "'a list"
| Call_se2_error "'a \<times> 'a \<times> 'a" "'a \<times> 'a \<times> 'a"

text \<open>Reading \<open>curves[i]\<close> at or beyond the capacity of the array has no defined result.\<close>

datatype fault = Array_index_out_of_bounds

subsection \<open>bezier_position_mode\<close>

text \<open>
  The loop that finds the curve (lines 124 to 145). It is left by \<open>break\<close>, or
  because its condition \<open>atomic_get(&ctx->running)\<close> is false; in both cases the
  function goes on after the loop with the current \<open>curve_index\<close>, \<open>time_start_nsec\<close>
  and \<open>time_stop_nsec\<close> (\<open>Proceed\<close>). Or it is left by \<open>b3rb_position_stop\<close> and
  \<open>return\<close> (\<open>Exceeds_bounds\<close>). \<open>Outside_array\<close> is a read of \<open>curves\<close> at an
  index that the array does not have. The flag is taken to keep its value during one
  evaluation, and \<open>curve_index\<close>, an \<open>int\<close> that stays below \<open>curves_count\<close>, is a
  \<open>nat\<close>.
\<close>

datatype search = Proceed nat u64 u64 | Exceeds_bounds | Outside_array

function find_curve :: "'a b3rb_context \<Rightarrow> u64 \<Rightarrow> nat \<Rightarrow> u64 \<Rightarrow> u64 \<Rightarrow> search" where
  "find_curve ctx time_nsec curve_index time_start_nsec time_stop_nsec =
     (if \<not> running ctx then Proceed curve_index time_start_nsec time_stop_nsec
      else if length (curves (offboard_bezier_trajectory ctx)) \<le> curve_index then Outside_array
      else if time_nsec < time_stop (curves (offboard_bezier_trajectory ctx) ! curve_index) then
        Proceed curve_index
          (if curve_index > 0
           then time_stop (curves (offboard_bezier_trajectory ctx) ! (curve_index - 1))
           else time_start_nsec)
          (time_stop (curves (offboard_bezier_trajectory ctx) ! curve_index))
      else if curve_index + 1 \<ge> curves_count (offboard_bezier_trajectory ctx) then Exceeds_bounds
      else find_curve ctx time_nsec (curve_index + 1) time_start_nsec time_stop_nsec)"
  by pat_completeness auto
termination
  by (relation "measure (\<lambda>(ctx, time_nsec, curve_index, time_start_nsec, time_stop_nsec).
        curves_count (offboard_bezier_trajectory ctx) - curve_index)") auto

text \<open>Lines 195 to 197: the twist from the reference rates and the error.\<close>

definition compute_twist ::
  "('a::{plus,times}) b3rb_context \<Rightarrow> 'a \<Rightarrow> 'a \<Rightarrow> 'a \<times> 'a \<times> 'a \<Rightarrow> 'a b3rb_context" where
  "compute_twist ctx V omega e =
     (case e of (e0, e1, e2) \<Rightarrow>
        let ctx1 = ctx\<lparr>cmd_vel := (cmd_vel ctx)
                     \<lparr>twist_linear := (twist_linear (cmd_vel ctx))
                        \<lparr>vec_x := V + gain_along_track ctx * e0\<rparr>\<rparr>\<rparr>
        in ctx1\<lparr>cmd_vel := (cmd_vel ctx1)
                     \<lparr>twist_angular := (twist_angular (cmd_vel ctx1))
                        \<lparr>vec_z := omega + gain_cross_track ctx1 * e1 + gain_heading ctx1 * e2\<rparr>\<rparr>\<rparr>)"

text \<open>Lines 147 to 197: what follows the loop.\<close>

definition track_curve ::
  "('a::{plus,times}) externals \<Rightarrow> 'a b3rb_context \<Rightarrow> u64 \<Rightarrow> nat \<Rightarrow> u64 \<Rightarrow> u64
     \<Rightarrow> fault + ('a b3rb_context \<times> 'a call list)" where
  "track_curve ext ctx time_nsec curve_index time_start_nsec time_stop_nsec =
     (if length (curves (offboard_bezier_trajectory ctx)) \<le> curve_index
      then Inl Array_index_out_of_bounds
      else
        let T = nsec_to_sec ext (time_stop_nsec - time_start_nsec);
            t = nsec_to_sec ext (time_nsec - time_start_nsec);
            PX = map (\<lambda>i. curve_x (curves (offboard_bezier_trajectory ctx) ! curve_index) ! i) [0..<6];
            PY = map (\<lambda>i. curve_y (curves (offboard_bezier_trajectory ctx) ! curve_index) ! i) [0..<6]
        in case bezier6_rover ext t T PX PY of (x, y, psi, V, omega) \<Rightarrow>
          let p = (position_x (estimator_odometry ctx),
                   position_y (estimator_odometry ctx),
                   double_of_int ext 2 * atan2 ext (orientation_z (estimator_odometry ctx))
                                                 (orientation_w (estimator_odometry ctx)));
              r = (x, y, psi);
              e = se2_error ext p r
          in Inr (compute_twist ctx V omega e,
                  [Call_bezier6_rover t T PX PY, Call_se2_error p r]))"

definition bezier_position_mode ::
  "('a::{zero,plus,times}) externals \<Rightarrow> int \<Rightarrow> 'a b3rb_context
     \<Rightarrow> fault + ('a b3rb_context \<times> 'a call list)" where
  "bezier_position_mode ext uptime ctx =
     (let time_start_nsec = time_start (offboard_bezier_trajectory ctx);
          time_stop_nsec = time_start_nsec;
          time_nsec = current_time_nsec ext uptime (offboard_clock_offset ctx)
      in if time_nsec < time_start_nsec then Inr (b3rb_position_stop ctx, [])
         else case find_curve ctx time_nsec 0 time_start_nsec time_stop_nsec of
                Exceeds_bounds \<Rightarrow> Inr (b3rb_position_stop ctx, [])
              | Outside_array \<Rightarrow> Inl Array_index_out_of_bounds
              | Proceed curve_index t0 t1 \<Rightarrow> track_curve ext ctx time_nsec curve_index t0 t1)"

subsection \<open>b3rb_position_run\<close>

text \<open>
  What the worker and the shell act on: the context, the commands published so far
  (\<open>zros_pub_update\<close>), the CasADi calls made so far, the number of threads created
  (\<open>k_thread_create\<close>) and the lines printed by \<open>shell_print\<close>.
\<close>

record 'a system =
  sys_ctx :: "'a b3rb_context"
  published :: "'a twist list"
  calls :: "'a call list"
  threads :: nat
  shell_out :: "string list"

text \<open>
  What one pass of the worker's loop receives: the result of \<open>k_poll\<close>, the value of
  \<open>k_uptime_get()\<close>, and for each subscription the sample waiting in the transport,
  if there is one.
\<close>

record 'a cycle_input =
  poll_rc :: int
  uptime :: int
  new_trajectory :: "'a bezier_trajectory option"
  new_status :: "status option"
  new_odometry :: "'a odometry option"
  new_clock_offset :: "clock_time option"

text \<open>
  Modelled from the spec: the transport (\<open>zros_sub_update_available\<close>,
  \<open>zros_sub_update\<close>) is outside src/. Each input has last-value-wins semantics and an
  availability flag the loop polls: a waiting sample replaces the retained one.
\<close>

definition zros_sub_update :: "'m option \<Rightarrow> 'm \<Rightarrow> 'm" where
  "zros_sub_update pending retained = (case pending of None \<Rightarrow> retained | Some m \<Rightarrow> m)"

definition b3rb_position_init :: "'a b3rb_context \<Rightarrow> 'a b3rb_context" where
  "b3rb_position_init ctx = ctx\<lparr>running := True\<rparr>"

definition b3rb_position_fini :: "'a b3rb_context \<Rightarrow> 'a b3rb_context" where
  "b3rb_position_fini ctx = ctx\<lparr>running := False\<rparr>"

text \<open>Lines 222 to 236: the four subscriptions are polled, in the order of the source.\<close>

definition update_subscriptions :: "'a cycle_input \<Rightarrow> 'a b3rb_context \<Rightarrow> 'a b3rb_context" where
  "update_subscriptions inp ctx0 =
     (let ctx1 = ctx0\<lparr>offboard_bezier_trajectory :=
                   zros_sub_update (new_trajectory inp) (offboard_bezier_trajectory ctx0)\<rparr>;
          ctx2 = ctx1\<lparr>ctx_status := zros_sub_update (new_status inp) (ctx_status ctx1)\<rparr>;
          ctx3 = ctx2\<lparr>estimator_odometry :=
                   zros_sub_update (new_odometry inp) (estimator_odometry ctx2)\<rparr>
      in ctx3\<lparr>offboard_clock_offset :=
                   zros_sub_update (new_clock_offset inp) (offboard_clock_offset ctx3)\<rparr>)"

text \<open>The body of the loop (lines 215 to 241); \<open>continue\<close> ends the pass.\<close>

definition b3rb_position_cycle ::
  "('a::{zero,plus,times}) externals \<Rightarrow> 'a cycle_input \<Rightarrow> 'a system \<Rightarrow> fault + 'a system" where
  "b3rb_position_cycle ext inp s =
     (if poll_rc inp \<noteq> 0 then Inr s
      else
        let ctx4 = update_subscriptions inp (sys_ctx s)
        in if mode (ctx_status ctx4) = MODE_BEZIER then
             (case bezier_position_mode ext (uptime inp) ctx4 of
                Inl f \<Rightarrow> Inl f
              | Inr (ctx5, cs) \<Rightarrow>
                  Inr (s\<lparr>sys_ctx := ctx5, published := published s @ [cmd_vel ctx5],
                         calls := calls s @ cs\<rparr>))
           else Inr (s\<lparr>sys_ctx := ctx4\<rparr>))"

subsection \<open>The shell handler\<close>

text \<open>
  \<open>start\<close> creates and starts a thread that executes \<open>b3rb_position_run\<close>; it does not
  touch the context itself.
\<close>

definition start :: "'a system \<Rightarrow> 'a system" where
  "start s = s\<lparr>threads := threads s + 1\<rparr>"

definition shell_print :: "string \<Rightarrow> 'a system \<Rightarrow> 'a system" where
  "shell_print line s = s\<lparr>shell_out := shell_out s @ [line]\<rparr>"

text \<open>\<open>argc\<close> is the length of \<open>argv\<close>. The result is the returned \<open>int\<close> and the state.\<close>

definition b3rb_position_cmd_handler :: "string list \<Rightarrow> 'a system \<Rightarrow> int \<times> 'a system" where
  "b3rb_position_cmd_handler argv s =
     (if length argv \<noteq> 1 then (- 1, s)
      else if argv ! 0 = ''start'' then
        (if running (sys_ctx s) then (0, shell_print ''already running'' s)
         else (0, start s))
      else if argv ! 0 = ''stop'' then
        (if running (sys_ctx s) then (0, s\<lparr>sys_ctx := (sys_ctx s)\<lparr>running := False\<rparr>\<rparr>)
         else (0, shell_print ''not running'' s))
      else if argv ! 0 = ''status'' then
        (0, shell_print (''running: '' @ (if running (sys_ctx s) then ''1'' else ''0'')) s)
      else (0, s))"

subsection \<open>The worker's loop and the shell, interleaved\<close>

text \<open>
  The worker and the shell are two threads that share the flag \<open>running\<close> only. An
  execution is a list of events: a pass of the worker's loop with its input, or a shell
  command, which runs between two passes. \<open>loop_condition\<close> is the condition of the
  \<open>while\<close> on line 213. The result says whether the worker is still in its loop when
  the events are used up, or has left it and executed \<open>b3rb_position_fini\<close>.
\<close>

datatype 'a event = Wake "'a cycle_input" | Shell "string list"

datatype worker = In_loop | Returned

definition loop_condition :: "'a b3rb_context \<Rightarrow> bool" where
  "loop_condition ctx = True"

fun b3rb_position_loop ::
  "('a::{zero,plus,times}) externals \<Rightarrow> 'a event list \<Rightarrow> 'a system
     \<Rightarrow> fault + ('a system \<times> worker)" where
  "b3rb_position_loop ext [] s = Inr (s, In_loop)"
| "b3rb_position_loop ext (Shell argv # evs) s =
     b3rb_position_loop ext evs (snd (b3rb_position_cmd_handler argv s))"
| "b3rb_position_loop ext (Wake inp # evs) s =
     (if loop_condition (sys_ctx s) then
        (case b3rb_position_cycle ext inp s of
           Inl f \<Rightarrow> Inl f
         | Inr s' \<Rightarrow> b3rb_position_loop ext evs s')
      else Inr (s\<lparr>sys_ctx := b3rb_position_fini (sys_ctx s)\<rparr>, Returned))"

definition b3rb_position_run ::
  "('a::{zero,plus,times}) externals \<Rightarrow> 'a event list \<Rightarrow> 'a system
     \<Rightarrow> fault + ('a system \<times> worker)" where
  "b3rb_position_run ext evs s =
     b3rb_position_loop ext evs (s\<lparr>sys_ctx := b3rb_position_init (sys_ctx s)\<rparr>)"

subsection \<open>A concrete vehicle\<close>

text \<open>
  Concrete inputs for the closed theorems below. The carrier is \<open>real\<close>. The stand-ins
  for the external functions are simple on purpose (the reference is the curve's first
  control point, with speed 1 and turn rate 0; the error is the componentwise
  difference; \<open>atan2 y x\<close> is \<open>y / x\<close>): the theorems that use them depend on which calls are made and with which
  times, not on the curve. The trajectory starts at 1 s and has two curves, which end at
  5 s and at 10 s.
\<close>

definition demo_ext :: "real externals" where
  "demo_ext =
     \<lparr>bezier6_rover = (\<lambda>t T PX PY. (PX ! 0, PY ! 0, 0, 1, 0)),
      se2_error = (\<lambda>p r. case p of (px, py, ptheta) \<Rightarrow>
                           case r of (rx, ry, rtheta) \<Rightarrow> (rx - px, ry - py, rtheta - ptheta)),
      atan2 = (\<lambda>y x. y / x),
      double_of_int = real_of_int,
      nsec_to_sec = (\<lambda>w. real (unat w) / 1000000000),
      current_time_nsec = (\<lambda>up offset.
         word_of_int (up * 1000000 + clock_sec offset * 1000000000 + clock_nanosec offset))\<rparr>"

definition demo_trajectory :: "real bezier_trajectory" where
  "demo_trajectory =
     \<lparr>time_start = 1000000000, curves_count = 2,
      curves = [\<lparr>time_stop = 5000000000, curve_x = [0, 1, 2, 3, 4, 5], curve_y = [0, 0, 0, 0, 0, 0]\<rparr>,
                \<lparr>time_stop = 10000000000, curve_x = [5, 6, 7, 8, 9, 10], curve_y = [0, 0, 0, 0, 0, 0]\<rparr>]\<rparr>"

definition demo_ctx :: "real b3rb_context" where
  "demo_ctx =
     \<lparr>ctx_status = \<lparr>mode = MODE_BEZIER\<rparr>,
      offboard_bezier_trajectory = demo_trajectory,
      offboard_clock_offset = \<lparr>clock_sec = 0, clock_nanosec = 0\<rparr>,
      estimator_odometry = \<lparr>position_x = 0, position_y = 0, orientation_z = 0, orientation_w = 1\<rparr>,
      cmd_vel = \<lparr>has_linear = True, twist_linear = \<lparr>vec_x = 0, vec_y = 0, vec_z = 0\<rparr>,
                 has_angular = True, twist_angular = \<lparr>vec_x = 0, vec_y = 0, vec_z = 0\<rparr>\<rparr>,
      wheel_base = 1 / 4,
      gain_along_track = 1 / 10,
      gain_cross_track = 1 / 10,
      gain_heading = 1 / 10,
      running = True\<rparr>"

definition demo_sys :: "real system" where
  "demo_sys = \<lparr>sys_ctx = demo_ctx, published = [], calls = [], threads = 1, shell_out = []\<rparr>"

text \<open>
  A pass woken by a pose sample at the given uptime (ms), with the vehicle 1 m behind and
  0.5 m beside the start of the curve, and a pass that times out.
\<close>

definition pose_input :: "int \<Rightarrow> real cycle_input" where
  "pose_input up =
     \<lparr>poll_rc = 0, uptime = up, new_trajectory = None, new_status = None,
      new_odometry = Some \<lparr>position_x = - 1, position_y = 1 / 2, orientation_z = 0, orientation_w = 1\<rparr>,
      new_clock_offset = None\<rparr>"

definition timeout_input :: "int \<Rightarrow> real cycle_input" where
  "timeout_input up =
     \<lparr>poll_rc = - 11, uptime = up, new_trajectory = None, new_status = None,
      new_odometry = None, new_clock_offset = None\<rparr>"

text \<open>
  The system after a pass at 3 s from \<open>demo_sys\<close>: the pose sample is retained, the
  sampler and the error estimator were called once each, and the command with forward
  speed 1.1 and turn rate -0.05 was published.
\<close>

definition demo_tracked :: "real system" where
  "demo_tracked =
     demo_sys
       \<lparr>sys_ctx := demo_ctx
          \<lparr>estimator_odometry :=
             \<lparr>position_x = - 1, position_y = 1 / 2, orientation_z = 0, orientation_w = 1\<rparr>,
           cmd_vel := \<lparr>has_linear = True, twist_linear = \<lparr>vec_x = 11 / 10, vec_y = 0, vec_z = 0\<rparr>,
                       has_angular = True,
                       twist_angular = \<lparr>vec_x = 0, vec_y = 0, vec_z = - (1 / 20)\<rparr>\<rparr>\<rparr>,
        published := [\<lparr>has_linear = True, twist_linear = \<lparr>vec_x = 11 / 10, vec_y = 0, vec_z = 0\<rparr>,
                       has_angular = True,
                       twist_angular = \<lparr>vec_x = 0, vec_y = 0, vec_z = - (1 / 20)\<rparr>\<rparr>],
        calls := [Call_bezier6_rover 2 4 [0, 1, 2, 3, 4, 5] [0, 0, 0, 0, 0, 0],
                  Call_se2_error (- 1, 1 / 2, 0) (0, 0, 0)]\<rparr>"

section \<open>Properties of the tracking evaluation\<close>

declare find_curve.simps [simp del]

lemma upt_0_6: "[0..<6] = [0, 1, 2, 3, 4, 5]"
  by code_simp

subsection \<open>The loop that finds the curve\<close>

text \<open>
  With the flag clear the condition of the loop fails at once: no curve is looked at,
  and the index and both times are what they were before the loop.
\<close>

lemma find_curve_not_running:
  "\<not> running ctx \<Longrightarrow> find_curve ctx time_nsec k a b = Proceed k a b"
  by (simp add: find_curve.simps [of ctx time_nsec k a b])

text \<open>
  With the flag set, the loop started at \<open>k\<close> stops at the first stored curve \<open>i\<close>
  from \<open>k\<close> on whose \<open>time_stop\<close> is later than the current time. The window runs
  from the \<open>time_stop\<close> of curve \<open>i - 1\<close>, or from the time the loop was given when
  \<open>i\<close> is 0, to the \<open>time_stop\<close> of curve \<open>i\<close>.
\<close>

lemma find_curve_running_first:
  assumes "running ctx"
    and "curves_count (offboard_bezier_trajectory ctx) \<le> length (curves (offboard_bezier_trajectory ctx))"
    and "i < curves_count (offboard_bezier_trajectory ctx)"
    and "time_nsec < time_stop (curves (offboard_bezier_trajectory ctx) ! i)"
    and "\<forall>j<i. \<not> time_nsec < time_stop (curves (offboard_bezier_trajectory ctx) ! j)"
    and "k \<le> i"
  shows "find_curve ctx time_nsec k a b =
           Proceed i (if i > 0 then time_stop (curves (offboard_bezier_trajectory ctx) ! (i - 1)) else a)
                     (time_stop (curves (offboard_bezier_trajectory ctx) ! i))"
  using assms
proof (induction ctx time_nsec k a b rule: find_curve.induct)
  case (1 ctx time_nsec k a b)
  show ?case
  proof (cases "k = i")
    case True
    with 1 show ?thesis by (simp add: find_curve.simps [of ctx time_nsec i a b])
  next
    case False
    with 1 have lt: "k < i" by simp
    with 1 have no: "\<not> time_nsec < time_stop (curves (offboard_bezier_trajectory ctx) ! k)" by blast
    from lt 1 have inb: "\<not> length (curves (offboard_bezier_trajectory ctx)) \<le> k"
      and more: "\<not> curves_count (offboard_bezier_trajectory ctx) \<le> k + 1" by simp_all
    have "find_curve ctx time_nsec k a b = find_curve ctx time_nsec (k + 1) a b"
      using 1(2) no inb more by (simp add: find_curve.simps [of ctx time_nsec k a b])
    also have "\<dots> = Proceed i (if i > 0 then time_stop (curves (offboard_bezier_trajectory ctx) ! (i - 1)) else a)
                     (time_stop (curves (offboard_bezier_trajectory ctx) ! i))"
      using 1 no inb more lt by (intro "1.IH") simp_all
    finally show ?thesis .
  qed
qed

text \<open>
  With the flag set and no stored curve from \<open>k\<close> on ending later than the current
  time, the loop ends in the stop branch.
\<close>

lemma find_curve_running_past_end:
  assumes "running ctx"
    and "curves_count (offboard_bezier_trajectory ctx) \<le> length (curves (offboard_bezier_trajectory ctx))"
    and "\<forall>j<curves_count (offboard_bezier_trajectory ctx).
           \<not> time_nsec < time_stop (curves (offboard_bezier_trajectory ctx) ! j)"
    and "k < curves_count (offboard_bezier_trajectory ctx)"
  shows "find_curve ctx time_nsec k a b = Exceeds_bounds"
  using assms
proof (induction ctx time_nsec k a b rule: find_curve.induct)
  case (1 ctx time_nsec k a b)
  from 1 have no: "\<not> time_nsec < time_stop (curves (offboard_bezier_trajectory ctx) ! k)"
    and inb: "\<not> length (curves (offboard_bezier_trajectory ctx)) \<le> k" by simp_all
  show ?case
  proof (cases "curves_count (offboard_bezier_trajectory ctx) \<le> k + 1")
    case True
    with 1(2) no inb show ?thesis by (simp add: find_curve.simps [of ctx time_nsec k a b])
  next
    case False
    with 1(2) no inb have "find_curve ctx time_nsec k a b = find_curve ctx time_nsec (k + 1) a b"
      by (simp add: find_curve.simps [of ctx time_nsec k a b])
    also have "\<dots> = Exceeds_bounds"
      using 1 no inb False by (intro "1.IH") simp_all
    finally show ?thesis .
  qed
qed

text \<open>
  With the flag set, a window that the loop hands on contains the current time: its start
  is not later, its end is later.
\<close>

lemma find_curve_running_window:
  assumes "running ctx"
    and "find_curve ctx time_nsec k a b = Proceed i t0 t1"
    and "a \<le> time_nsec"
    and "0 < k \<Longrightarrow> k \<le> length (curves (offboard_bezier_trajectory ctx))
           \<and> time_stop (curves (offboard_bezier_trajectory ctx) ! (k - 1)) \<le> time_nsec"
  shows "t0 \<le> time_nsec \<and> time_nsec < t1"
  using assms
proof (induction ctx time_nsec k a b rule: find_curve.induct)
  case (1 ctx time_nsec k a b)
  show ?case
  proof (cases "time_nsec < time_stop (curves (offboard_bezier_trajectory ctx) ! k)")
    case True
    with 1(2,3,4,5) show ?thesis
      by (auto simp: find_curve.simps [of ctx time_nsec k a b] split: if_splits)
  next
    case False
    with 1(2,3) have inb: "\<not> length (curves (offboard_bezier_trajectory ctx)) \<le> k"
      and more: "\<not> curves_count (offboard_bezier_trajectory ctx) \<le> k + 1"
      and rec: "find_curve ctx time_nsec (k + 1) a b = Proceed i t0 t1"
      by (auto simp: find_curve.simps [of ctx time_nsec k a b] split: if_splits)
    show ?thesis
      using 1(2,4) False inb more rec by (intro "1.IH") (simp_all add: not_less)
  qed
qed

subsection \<open>The evaluation as a whole\<close>

lemma b3rb_position_stop_other_fields:
  "offboard_bezier_trajectory (b3rb_position_stop ctx) = offboard_bezier_trajectory ctx"
  "offboard_clock_offset (b3rb_position_stop ctx) = offboard_clock_offset ctx"
  "running (b3rb_position_stop ctx) = running ctx"
  by (simp_all add: b3rb_position_stop_def Let_def)

lemma b3rb_position_stop_idem:
  "b3rb_position_stop (b3rb_position_stop ctx) = b3rb_position_stop ctx"
  by (simp add: b3rb_position_stop_def Let_def)

lemma compute_twist_cmd_vel:
  "cmd_vel (compute_twist ctx V omega (e_along, e_cross, e_heading)) =
     (cmd_vel ctx)\<lparr>twist_linear := (twist_linear (cmd_vel ctx))
                      \<lparr>vec_x := V + gain_along_track ctx * e_along\<rparr>,
                   twist_angular := (twist_angular (cmd_vel ctx))
                      \<lparr>vec_z := omega + gain_cross_track ctx * e_cross + gain_heading ctx * e_heading\<rparr>\<rparr>"
  by (simp add: compute_twist_def Let_def)

lemma track_curve_calls:
  assumes "track_curve ext ctx time_nsec i t0 t1 = Inr (ctx', cs)"
  shows "\<exists>PX PY p x y psi V omega.
           cs = [Call_bezier6_rover (nsec_to_sec ext (time_nsec - t0)) (nsec_to_sec ext (t1 - t0)) PX PY,
                 Call_se2_error p (x, y, psi)]
         \<and> bezier6_rover ext (nsec_to_sec ext (time_nsec - t0)) (nsec_to_sec ext (t1 - t0)) PX PY
             = (x, y, psi, V, omega)
         \<and> ctx' = compute_twist ctx V omega (se2_error ext p (x, y, psi))"
  using assms
  by (auto simp: track_curve_def Let_def split: if_splits prod.splits)

lemma bezier_position_mode_cases:
  assumes "bezier_position_mode ext up ctx = Inr (ctx', cs)"
  shows "(ctx' = b3rb_position_stop ctx \<and> cs = [])
       \<or> (\<exists>i t0 t1.
             find_curve ctx (current_time_nsec ext up (offboard_clock_offset ctx)) 0
                 (time_start (offboard_bezier_trajectory ctx))
                 (time_start (offboard_bezier_trajectory ctx)) = Proceed i t0 t1
           \<and> time_start (offboard_bezier_trajectory ctx)
                 \<le> current_time_nsec ext up (offboard_clock_offset ctx)
           \<and> track_curve ext ctx (current_time_nsec ext up (offboard_clock_offset ctx)) i t0 t1
                 = Inr (ctx', cs))"
  using assms
  by (auto simp: bezier_position_mode_def Let_def not_less split: if_splits search.splits)

lemma bezier_position_mode_tracked:
  assumes "bezier_position_mode ext up ctx = Inr (ctx', [Call_bezier6_rover t T PX PY, Call_se2_error p r])"
    and "bezier6_rover ext t T PX PY = (x, y, psi, V, omega)"
  shows "r = (x, y, psi) \<and> ctx' = compute_twist ctx V omega (se2_error ext p r)"
proof -
  from bezier_position_mode_cases [OF assms(1)] obtain i t0 t1 where
    "track_curve ext ctx (current_time_nsec ext up (offboard_clock_offset ctx)) i t0 t1
       = Inr (ctx', [Call_bezier6_rover t T PX PY, Call_se2_error p r])"
    by auto
  from track_curve_calls [OF this] assms(2) show ?thesis by auto
qed

text \<open>
  With the flag set, every call of the sampler is within its domain, counted in
  nanoseconds: the elapsed time is less than the duration of the window, so that the
  duration is not zero, and neither subtraction wraps.
\<close>

lemma bezier_position_mode_running_domain:
  assumes "running ctx"
    and "bezier_position_mode ext up ctx = Inr (ctx', Call_bezier6_rover t T PX PY # cs)"
  shows "\<exists>elapsed duration.
           t = nsec_to_sec ext elapsed \<and> T = nsec_to_sec ext duration \<and> elapsed < duration"
proof -
  let ?now = "current_time_nsec ext up (offboard_clock_offset ctx)"
  let ?start = "time_start (offboard_bezier_trajectory ctx)"
  from bezier_position_mode_cases [OF assms(2)] obtain i t0 t1 where
    f: "find_curve ctx ?now 0 ?start ?start = Proceed i t0 t1"
    and s: "?start \<le> ?now"
    and tr: "track_curve ext ctx ?now i t0 t1 = Inr (ctx', Call_bezier6_rover t T PX PY # cs)"
    by auto
  from find_curve_running_window [OF assms(1) f s] have w: "t0 \<le> ?now" "?now < t1" by simp_all
  from w have "unat (?now - t0) = unat ?now - unat t0" "unat (t1 - t0) = unat t1 - unat t0"
    by (simp_all add: unat_sub)
  with w have "?now - t0 < t1 - t0"
    by (simp add: word_less_nat_alt word_le_nat_alt)
  moreover from track_curve_calls [OF tr]
  have "t = nsec_to_sec ext (?now - t0)" "T = nsec_to_sec ext (t1 - t0)" by auto
  ultimately show ?thesis by blast
qed

text \<open>
  With the flag clear, a current time that is not before the start of the trajectory
  always leads to the sampler, with curve 0 and with a window from the start of the
  trajectory to the start of the trajectory: a duration of 0 ns.
\<close>

lemma bezier_position_mode_not_running:
  assumes "\<not> running ctx"
    and "\<not> current_time_nsec ext up (offboard_clock_offset ctx) < time_start (offboard_bezier_trajectory ctx)"
  shows "bezier_position_mode ext up ctx =
           track_curve ext ctx (current_time_nsec ext up (offboard_clock_offset ctx)) 0
             (time_start (offboard_bezier_trajectory ctx)) (time_start (offboard_bezier_trajectory ctx))"
  using assms by (simp add: bezier_position_mode_def Let_def find_curve_not_running)

text \<open>
  With the flag set and at least one stored curve, a current time that no stored curve
  outlasts leads to the stop, without a call. Curve 0 is read before \<open>curves_count\<close>
  is looked at, hence the condition that a curve is stored.
\<close>

lemma bezier_position_mode_running_past_end:
  assumes "running ctx"
    and "0 < curves_count (offboard_bezier_trajectory ctx)"
    and "curves_count (offboard_bezier_trajectory ctx) \<le> length (curves (offboard_bezier_trajectory ctx))"
    and "\<forall>j<curves_count (offboard_bezier_trajectory ctx).
           time_stop (curves (offboard_bezier_trajectory ctx) ! j)
             \<le> current_time_nsec ext up (offboard_clock_offset ctx)"
  shows "bezier_position_mode ext up ctx = Inr (b3rb_position_stop ctx, [])"
proof -
  have "find_curve ctx (current_time_nsec ext up (offboard_clock_offset ctx)) 0 a b = Exceeds_bounds"
    for a b
    using assms by (intro find_curve_running_past_end) (simp_all add: not_less)
  then show ?thesis by (simp add: bezier_position_mode_def Let_def)
qed

subsection \<open>The pass of the loop\<close>

lemma update_subscriptions_fields:
  "cmd_vel (update_subscriptions inp ctx) = cmd_vel ctx"
  "gain_along_track (update_subscriptions inp ctx) = gain_along_track ctx"
  "gain_cross_track (update_subscriptions inp ctx) = gain_cross_track ctx"
  "gain_heading (update_subscriptions inp ctx) = gain_heading ctx"
  "running (update_subscriptions inp ctx) = running ctx"
  "ctx_status (update_subscriptions inp ctx) = zros_sub_update (new_status inp) (ctx_status ctx)"
  by (simp_all add: update_subscriptions_def Let_def)

lemma b3rb_position_cycle_cases:
  assumes "b3rb_position_cycle ext inp s = Inr s'"
  shows "(s' = s \<and> poll_rc inp \<noteq> 0)
       \<or> (poll_rc inp = 0 \<and> s' = s\<lparr>sys_ctx := update_subscriptions inp (sys_ctx s)\<rparr>
            \<and> mode (ctx_status (update_subscriptions inp (sys_ctx s))) \<noteq> MODE_BEZIER)
       \<or> (poll_rc inp = 0 \<and> mode (ctx_status (update_subscriptions inp (sys_ctx s))) = MODE_BEZIER
            \<and> (\<exists>cs. bezier_position_mode ext (uptime inp) (update_subscriptions inp (sys_ctx s))
                        = Inr (sys_ctx s', cs)
                  \<and> calls s' = calls s @ cs
                  \<and> published s' = published s @ [cmd_vel (sys_ctx s')]))"
  using assms
  by (auto simp: b3rb_position_cycle_def Let_def split: if_splits sum.splits)

text \<open>
  The worker never leaves its loop: whatever the events, and whatever the flag, it is
  still in the loop when they are used up (or an array was read outside its bounds).
\<close>

lemma b3rb_position_loop_never_returns:
  "b3rb_position_loop ext evs s \<noteq> Inr (s', Returned)"
  by (induction ext evs s rule: b3rb_position_loop.induct)
     (auto simp: loop_condition_def split: sum.splits)

section \<open>The claims\<close>

text \<open>
  C1, as the code has it. In every pass in which a pose sample arrives before the timeout
  (\<open>k_poll\<close> returns 0) and the retained vehicle mode, after the subscriptions were
  polled, is not \<open>MODE_BEZIER\<close>, the loop publishes no command at all, makes no
  evaluation, and leaves the retained velocity command as it was, whatever the retained
  pose and trajectory are.
\<close>

theorem cycle_other_mode_publishes_nothing:
  assumes "poll_rc inp = 0"
    and "mode (zros_sub_update (new_status inp) (ctx_status (sys_ctx s))) \<noteq> MODE_BEZIER"
  shows "\<exists>s'. b3rb_position_cycle ext inp s = Inr s'
           \<and> published s' = published s
           \<and> calls s' = calls s
           \<and> cmd_vel (sys_ctx s') = cmd_vel (sys_ctx s)"
  using assms
  by (simp add: b3rb_position_cycle_def Let_def update_subscriptions_fields)

theorem cycle_other_mode_publishes_nothing_witness:
  "poll_rc (pose_input 3000) = 0
 \<and> mode (zros_sub_update (new_status (pose_input 3000))
           (ctx_status (sys_ctx (demo_sys\<lparr>sys_ctx := demo_ctx\<lparr>ctx_status := \<lparr>mode = MODE_OTHER 0\<rparr>\<rparr>\<rparr>))))
      \<noteq> MODE_BEZIER
 \<and> (\<exists>s'. b3rb_position_cycle demo_ext (pose_input 3000)
             (demo_sys\<lparr>sys_ctx := demo_ctx\<lparr>ctx_status := \<lparr>mode = MODE_OTHER 0\<rparr>\<rparr>\<rparr>) = Inr s'
        \<and> published s' = []
        \<and> calls s' = []
        \<and> cmd_vel (sys_ctx s') = cmd_vel demo_ctx)"
  using cycle_other_mode_publishes_nothing
    [of "pose_input 3000" "demo_sys\<lparr>sys_ctx := demo_ctx\<lparr>ctx_status := \<lparr>mode = MODE_OTHER 0\<rparr>\<rparr>\<rparr>" demo_ext]
  by (simp add: pose_input_def zros_sub_update_def demo_sys_def)

text \<open>
  C1 as it is stated fails: with a pose sample and a mode other than \<open>MODE_BEZIER\<close> the
  pass ends with nothing published, not with the command (0, 0) published.
\<close>

theorem cycle_other_mode_no_zero_command:
  "map_sum id published
     (b3rb_position_cycle demo_ext (pose_input 3000)
        (demo_sys\<lparr>sys_ctx := demo_ctx\<lparr>ctx_status := \<lparr>mode = MODE_OTHER 0\<rparr>\<rparr>\<rparr>))
   = Inr []"
  by (simp add: b3rb_position_cycle_def update_subscriptions_def zros_sub_update_def Let_def
        pose_input_def demo_sys_def)

text \<open>
  C2, at an input where the code departs from it. The worker is started, the shell
  executes \<open>stop\<close>, which clears the flag, and two pose samples arrive. Both passes are
  executed with the flag clear: each publishes a command and makes its two calls, and the
  worker is still in its loop afterwards.
\<close>

theorem stop_does_not_end_loop:
  "(case b3rb_position_run demo_ext [Shell [''stop'']] demo_sys of
      Inl f \<Rightarrow> False
    | Inr (s', w) \<Rightarrow> running (sys_ctx s') = False \<and> published s' = [])
 \<and> (case b3rb_position_run demo_ext
           [Shell [''stop''], Wake (pose_input 3000), Wake (pose_input 3100)] demo_sys of
      Inl f \<Rightarrow> False
    | Inr (s', w) \<Rightarrow> w = In_loop \<and> running (sys_ctx s') = False
                      \<and> length (published s') = 2 \<and> length (calls s') = 4)"
  by (simp add: b3rb_position_run_def b3rb_position_init_def loop_condition_def
        b3rb_position_cmd_handler_def b3rb_position_cycle_def update_subscriptions_def
        zros_sub_update_def bezier_position_mode_def track_curve_def compute_twist_def
        find_curve.simps demo_sys_def pose_input_def demo_ctx_def demo_trajectory_def
        demo_ext_def Let_def upt_0_6)

text \<open>
  C3, at an input where the code departs from it. The worker is started, the shell
  executes \<open>stop\<close>, and a pose sample arrives at 3 s, two seconds into the trajectory.
  The sampler is called with the elapsed time \<open>t = 2\<close> and the duration \<open>T = 0\<close>.
\<close>

theorem sampler_called_with_zero_duration:
  "(case b3rb_position_run demo_ext [Shell [''stop''], Wake (pose_input 3000)] demo_sys of
      Inl f \<Rightarrow> False
    | Inr (s', w) \<Rightarrow>
        calls s' = [Call_bezier6_rover 2 0 [0, 1, 2, 3, 4, 5] [0, 0, 0, 0, 0, 0],
                    Call_se2_error (- 1, 1 / 2, 0) (0, 0, 0)])"
  by (simp add: b3rb_position_run_def b3rb_position_init_def loop_condition_def
        b3rb_position_cmd_handler_def b3rb_position_cycle_def update_subscriptions_def
        zros_sub_update_def bezier_position_mode_def track_curve_def compute_twist_def
        find_curve.simps demo_sys_def pose_input_def demo_ctx_def demo_trajectory_def
        demo_ext_def Let_def upt_0_6)

text \<open>
  C4, at an input where the code departs from it. The trajectory starts at 1 s and its
  curves end at 5 s and 10 s, in order; the current time is 6 s. The first curve that ends
  later is curve 1, with the window from 5 s to 10 s, and with the flag set the loop finds
  it. In the context that the shell's \<open>stop\<close> leaves, the loop hands on curve 0 and a
  window from 1 s to 1 s.
\<close>

theorem find_curve_skipped_after_stop:
  "sys_ctx (snd (b3rb_position_cmd_handler [''stop''] demo_sys)) = demo_ctx\<lparr>running := False\<rparr>
 \<and> time_start (offboard_bezier_trajectory demo_ctx) = 1000000000
 \<and> time_stop (curves (offboard_bezier_trajectory demo_ctx) ! 0) = 5000000000
 \<and> time_stop (curves (offboard_bezier_trajectory demo_ctx) ! 1) = 10000000000
 \<and> find_curve demo_ctx 6000000000 0 1000000000 1000000000 = Proceed 1 5000000000 10000000000
 \<and> find_curve (demo_ctx\<lparr>running := False\<rparr>) 6000000000 0 1000000000 1000000000
     = Proceed 0 1000000000 1000000000"
  by (simp add: find_curve.simps b3rb_position_cmd_handler_def demo_sys_def demo_ctx_def
        demo_trajectory_def)

text \<open>
  C5. When the current time is before the start of the trajectory, the evaluation ends
  without fault and without a call of the sampler or of the error estimator, and the
  command it leaves has forward speed 0 and turn rate 0. Evaluating again in the context
  it leaves, at any time that is still before the start, gives that same context back,
  again without a call.
\<close>

theorem before_start_stops:
  assumes "current_time_nsec ext up1 (offboard_clock_offset ctx)
             < time_start (offboard_bezier_trajectory ctx)"
    and "current_time_nsec ext up2 (offboard_clock_offset ctx)
             < time_start (offboard_bezier_trajectory ctx)"
  shows "\<exists>ctx1. bezier_position_mode ext up1 ctx = Inr (ctx1, [])
            \<and> vec_x (twist_linear (cmd_vel ctx1)) = 0
            \<and> vec_z (twist_angular (cmd_vel ctx1)) = 0
            \<and> bezier_position_mode ext up2 ctx1 = Inr (ctx1, [])"
proof -
  have first: "bezier_position_mode ext up1 ctx = Inr (b3rb_position_stop ctx, [])"
    using assms(1) by (simp add: bezier_position_mode_def Let_def)
  have again: "bezier_position_mode ext up2 (b3rb_position_stop ctx) = Inr (b3rb_position_stop ctx, [])"
    using assms(2)
    by (simp add: bezier_position_mode_def Let_def b3rb_position_stop_other_fields
          b3rb_position_stop_idem)
  have zero: "vec_x (twist_linear (cmd_vel (b3rb_position_stop ctx))) = 0"
    "vec_z (twist_angular (cmd_vel (b3rb_position_stop ctx))) = 0"
    by (simp_all add: b3rb_position_stop_def Let_def)
  from first again zero show ?thesis by blast
qed

theorem before_start_stops_witness:
  "current_time_nsec demo_ext 500 (offboard_clock_offset (sys_ctx demo_tracked))
     < time_start (offboard_bezier_trajectory (sys_ctx demo_tracked))
 \<and> current_time_nsec demo_ext 700 (offboard_clock_offset (sys_ctx demo_tracked))
     < time_start (offboard_bezier_trajectory (sys_ctx demo_tracked))
 \<and> vec_x (twist_linear (cmd_vel (sys_ctx demo_tracked))) = 11 / 10
 \<and> (\<exists>ctx1. bezier_position_mode demo_ext 500 (sys_ctx demo_tracked) = Inr (ctx1, [])
        \<and> vec_x (twist_linear (cmd_vel ctx1)) = 0
        \<and> vec_z (twist_angular (cmd_vel ctx1)) = 0
        \<and> bezier_position_mode demo_ext 700 ctx1 = Inr (ctx1, []))"
  using before_start_stops [of demo_ext 500 "sys_ctx demo_tracked" 700]
  by (simp add: demo_tracked_def demo_sys_def demo_ctx_def demo_trajectory_def demo_ext_def)

text \<open>
  C6, at an input where the code departs from it. The stored curves end at 5 s and at
  10 s and the current time is 20 s. With the flag set the evaluation stops the vehicle
  and makes no call. In the context that the shell's \<open>stop\<close> leaves, it calls the
  sampler and the error estimator, and the command it leaves has forward speed 1.
\<close>

theorem past_end_tracks_after_stop:
  "current_time_nsec demo_ext 20000 (offboard_clock_offset demo_ctx) = 20000000000
 \<and> curves_count (offboard_bezier_trajectory demo_ctx) = 2
 \<and> time_stop (curves (offboard_bezier_trajectory demo_ctx) ! 0) = 5000000000
 \<and> time_stop (curves (offboard_bezier_trajectory demo_ctx) ! 1) = 10000000000
 \<and> bezier_position_mode demo_ext 20000 demo_ctx = Inr (demo_ctx, [])
 \<and> bezier_position_mode demo_ext 20000 (demo_ctx\<lparr>running := False\<rparr>)
     = Inr (demo_ctx\<lparr>running := False,
                     cmd_vel := (cmd_vel demo_ctx)\<lparr>twist_linear := \<lparr>vec_x = 1, vec_y = 0, vec_z = 0\<rparr>\<rparr>\<rparr>,
            [Call_bezier6_rover 19 0 [0, 1, 2, 3, 4, 5] [0, 0, 0, 0, 0, 0],
             Call_se2_error (0, 0, 0) (0, 0, 0)])"
  by (simp add: bezier_position_mode_def track_curve_def compute_twist_def b3rb_position_stop_def
        find_curve.simps demo_ctx_def demo_trajectory_def demo_ext_def Let_def upt_0_6)

text \<open>
  C7. Take a pass that ends without fault and in which the sampler was called, returning
  the reference \<open>(x, y, psi, V, omega)\<close>, and then the error estimator, returning
  \<open>(e_along, e_cross, e_heading)\<close>. The pass publishes the command it leaves in the
  context. In that command the forward speed is \<open>V + gain_along_track * e_along\<close> and the
  turn rate is \<open>omega + gain_cross_track * e_cross + gain_heading * e_heading\<close>, with the
  gains of the context and the additions and multiplications of the source, in its order;
  nothing bounds or replaces either value. The error was taken against the sampled
  reference pose. This holds for every sampler and every error estimator, so for all
  values of the reference rates and of the error.
\<close>

theorem control_law:
  assumes "b3rb_position_cycle ext inp s = Inr s'"
    and "calls s' = calls s @ [Call_bezier6_rover t T PX PY, Call_se2_error p r]"
    and "bezier6_rover ext t T PX PY = (x, y, psi, V, omega)"
    and "se2_error ext p r = (e_along, e_cross, e_heading)"
  shows "published s' = published s @ [cmd_vel (sys_ctx s')]
       \<and> vec_x (twist_linear (cmd_vel (sys_ctx s'))) = V + gain_along_track (sys_ctx s) * e_along
       \<and> vec_z (twist_angular (cmd_vel (sys_ctx s')))
           = omega + gain_cross_track (sys_ctx s) * e_cross + gain_heading (sys_ctx s) * e_heading
       \<and> r = (x, y, psi)
       \<and> gain_along_track (sys_ctx s') = gain_along_track (sys_ctx s)
       \<and> gain_cross_track (sys_ctx s') = gain_cross_track (sys_ctx s)
       \<and> gain_heading (sys_ctx s') = gain_heading (sys_ctx s)"
proof -
  from b3rb_position_cycle_cases [OF assms(1)] assms(2)
  have m: "bezier_position_mode ext (uptime inp) (update_subscriptions inp (sys_ctx s))
          = Inr (sys_ctx s', [Call_bezier6_rover t T PX PY, Call_se2_error p r])"
    and pub: "published s' = published s @ [cmd_vel (sys_ctx s')]"
    by auto
  from bezier_position_mode_tracked [OF m assms(3)] assms(4)
  have r: "r = (x, y, psi)"
    and c: "sys_ctx s' = compute_twist (update_subscriptions inp (sys_ctx s)) V omega
                           (e_along, e_cross, e_heading)"
    by simp_all
  have g: "gain_along_track (sys_ctx s') = gain_along_track (sys_ctx s)"
    "gain_cross_track (sys_ctx s') = gain_cross_track (sys_ctx s)"
    "gain_heading (sys_ctx s') = gain_heading (sys_ctx s)"
    by (simp_all add: c compute_twist_def Let_def update_subscriptions_fields)
  have "cmd_vel (sys_ctx s') =
          (cmd_vel (sys_ctx s))
            \<lparr>twist_linear := (twist_linear (cmd_vel (sys_ctx s)))
               \<lparr>vec_x := V + gain_along_track (sys_ctx s) * e_along\<rparr>,
             twist_angular := (twist_angular (cmd_vel (sys_ctx s)))
               \<lparr>vec_z := omega + gain_cross_track (sys_ctx s) * e_cross
                              + gain_heading (sys_ctx s) * e_heading\<rparr>\<rparr>"
    by (simp add: c compute_twist_cmd_vel update_subscriptions_fields)
  with pub r g show ?thesis by simp
qed

theorem control_law_witness:
  "b3rb_position_cycle demo_ext (pose_input 3000) demo_sys = Inr demo_tracked
 \<and> calls demo_tracked
     = calls demo_sys @ [Call_bezier6_rover 2 4 [0, 1, 2, 3, 4, 5] [0, 0, 0, 0, 0, 0],
                         Call_se2_error (- 1, 1 / 2, 0) (0, 0, 0)]
 \<and> bezier6_rover demo_ext 2 4 [0, 1, 2, 3, 4, 5] [0, 0, 0, 0, 0, 0] = (0, 0, 0, 1, 0)
 \<and> se2_error demo_ext (- 1, 1 / 2, 0) (0, 0, 0) = (1, - (1 / 2), 0)
 \<and> published demo_tracked = published demo_sys @ [cmd_vel (sys_ctx demo_tracked)]
 \<and> vec_x (twist_linear (cmd_vel (sys_ctx demo_tracked))) = 1 + 1 / 10 * 1
 \<and> vec_z (twist_angular (cmd_vel (sys_ctx demo_tracked))) = 0 + 1 / 10 * (- (1 / 2)) + 1 / 10 * 0"
proof -
  have pass: "b3rb_position_cycle demo_ext (pose_input 3000) demo_sys = Inr demo_tracked"
    by (simp add: b3rb_position_cycle_def update_subscriptions_def zros_sub_update_def
          bezier_position_mode_def track_curve_def compute_twist_def find_curve.simps
          demo_tracked_def demo_sys_def pose_input_def demo_ctx_def demo_trajectory_def
          demo_ext_def Let_def upt_0_6)
  have log: "calls demo_tracked
     = calls demo_sys @ [Call_bezier6_rover 2 4 [0, 1, 2, 3, 4, 5] [0, 0, 0, 0, 0, 0],
                         Call_se2_error (- 1, 1 / 2, 0) (0, 0, 0)]"
    by (simp add: demo_tracked_def demo_sys_def)
  have ref: "bezier6_rover demo_ext 2 4 [0, 1, 2, 3, 4, 5] [0, 0, 0, 0, 0, 0] = (0, 0, 0, 1, 0)"
    by (simp add: demo_ext_def)
  have err: "se2_error demo_ext (- 1, 1 / 2, 0) (0, 0, 0) = (1, - (1 / 2), 0)"
    by (simp add: demo_ext_def)
  from control_law [OF pass log ref err] pass log ref err show ?thesis
    by (simp add: demo_sys_def demo_ctx_def)
qed

text \<open>
  C8. In a pass in which the wait for a pose sample times out (\<open>k_poll\<close> returns a value
  other than 0), nothing is published, no evaluation is made and nothing else changes.
  The loop goes on with the next events as if the pass had not happened, and a \<open>status\<close>
  command after the pass prints the run state that the flag had before it, while the
  worker is still in its loop.
\<close>

theorem cycle_timeout:
  assumes "poll_rc inp \<noteq> 0"
  shows "b3rb_position_cycle ext inp s = Inr s
       \<and> b3rb_position_loop ext (Wake inp # evs) s = b3rb_position_loop ext evs s
       \<and> b3rb_position_loop ext [Wake inp, Shell [''status'']] s =
           Inr (s\<lparr>shell_out := shell_out s
                     @ [''running: '' @ (if running (sys_ctx s) then ''1'' else ''0'')]\<rparr>,
                In_loop)"
  using assms
  by (simp add: b3rb_position_cycle_def loop_condition_def b3rb_position_cmd_handler_def
        shell_print_def)

theorem cycle_timeout_witness:
  "poll_rc (timeout_input 2000) \<noteq> 0
 \<and> b3rb_position_cycle demo_ext (timeout_input 2000) demo_sys = Inr demo_sys
 \<and> b3rb_position_loop demo_ext [Wake (timeout_input 2000), Wake (pose_input 3000)] demo_sys
     = b3rb_position_loop demo_ext [Wake (pose_input 3000)] demo_sys
 \<and> b3rb_position_loop demo_ext [Wake (timeout_input 2000), Shell [''status'']] demo_sys
     = Inr (demo_sys\<lparr>shell_out := [''running: 1'']\<rparr>, In_loop)"
  using cycle_timeout [of "timeout_input 2000" demo_ext demo_sys "[Wake (pose_input 3000)]"]
  by (simp add: timeout_input_def demo_sys_def demo_ctx_def)

text \<open>
  C9. The shell handler: \<open>start\<close> with the flag set prints "already running", creates
  no thread and changes nothing else; \<open>stop\<close> with the flag clear prints "not running"
  and changes nothing else; any call with an argument count other than 1 returns -1 and
  changes nothing; \<open>status\<close> prints the flag as 1 or 0 and changes nothing else.
\<close>

theorem cmd_handler_administration:
  "(running (sys_ctx s) \<longrightarrow>
      b3rb_position_cmd_handler [''start''] s
        = (0, s\<lparr>shell_out := shell_out s @ [''already running'']\<rparr>))
 \<and> (\<not> running (sys_ctx s) \<longrightarrow>
      b3rb_position_cmd_handler [''stop''] s
        = (0, s\<lparr>shell_out := shell_out s @ [''not running'']\<rparr>))
 \<and> (length argv \<noteq> 1 \<longrightarrow> b3rb_position_cmd_handler argv s = (- 1, s))
 \<and> b3rb_position_cmd_handler [''status''] s
      = (0, s\<lparr>shell_out := shell_out s
                  @ [''running: '' @ (if running (sys_ctx s) then ''1'' else ''0'')]\<rparr>)"
  by (simp add: b3rb_position_cmd_handler_def shell_print_def)

theorem cmd_handler_administration_witness:
  "running (sys_ctx demo_sys)
 \<and> b3rb_position_cmd_handler [''start''] demo_sys
     = (0, demo_sys\<lparr>shell_out := [''already running'']\<rparr>)
 \<and> threads (snd (b3rb_position_cmd_handler [''start''] demo_sys)) = 1
 \<and> \<not> running (sys_ctx (demo_sys\<lparr>sys_ctx := demo_ctx\<lparr>running := False\<rparr>\<rparr>))
 \<and> b3rb_position_cmd_handler [''stop''] (demo_sys\<lparr>sys_ctx := demo_ctx\<lparr>running := False\<rparr>\<rparr>)
     = (0, demo_sys\<lparr>sys_ctx := demo_ctx\<lparr>running := False\<rparr>, shell_out := [''not running'']\<rparr>)
 \<and> length [''start'', ''now''] \<noteq> 1
 \<and> b3rb_position_cmd_handler [''start'', ''now''] demo_sys = (- 1, demo_sys)
 \<and> b3rb_position_cmd_handler [''status''] demo_sys
     = (0, demo_sys\<lparr>shell_out := [''running: 1'']\<rparr>)"
  using cmd_handler_administration [of demo_sys "[''start'', ''now'']"]
    cmd_handler_administration [of "demo_sys\<lparr>sys_ctx := demo_ctx\<lparr>running := False\<rparr>\<rparr>" "[]"]
  by (simp add: demo_sys_def demo_ctx_def)

text \<open>
  C10. The stop operation sets the forward speed \<open>linear.x\<close> and the yaw rate
  \<open>angular.z\<close> of the velocity command to zero. Every other field of the command
  (\<open>linear.y\<close>, \<open>linear.z\<close>, \<open>angular.x\<close>, \<open>angular.y\<close>, \<open>has_linear\<close>, \<open>has_angular\<close>)
  keeps the value it had, whatever the command was before.
\<close>

theorem b3rb_position_stop_frame:
  fixes ctx :: "('a::zero) b3rb_context"
  shows "vec_x (twist_linear (cmd_vel (b3rb_position_stop ctx))) = 0
       \<and> vec_z (twist_angular (cmd_vel (b3rb_position_stop ctx))) = 0
       \<and> vec_y (twist_linear (cmd_vel (b3rb_position_stop ctx))) = vec_y (twist_linear (cmd_vel ctx))
       \<and> vec_z (twist_linear (cmd_vel (b3rb_position_stop ctx))) = vec_z (twist_linear (cmd_vel ctx))
       \<and> vec_x (twist_angular (cmd_vel (b3rb_position_stop ctx))) = vec_x (twist_angular (cmd_vel ctx))
       \<and> vec_y (twist_angular (cmd_vel (b3rb_position_stop ctx))) = vec_y (twist_angular (cmd_vel ctx))
       \<and> has_linear (cmd_vel (b3rb_position_stop ctx)) = has_linear (cmd_vel ctx)
       \<and> has_angular (cmd_vel (b3rb_position_stop ctx)) = has_angular (cmd_vel ctx)"
  by (simp add: b3rb_position_stop_def Let_def)

end
